theory Spec2Isabelle
  imports Complex_Main "HOL-Library.Multiset" "HOL-Library.Sublist"
begin

section \<open>JavaScript values\<close>

text \<open>
  The values \<open>JSON.parse\<close> can return, and \<open>undefined\<close>, which a missing property or an
  index past the end of an array reads as. Numbers are the integer-valued ones: the script
  only tests a number for being zero. An object is its list of own properties.
\<close>

datatype jsval =
    Undefined
  | JNull
  | JBool bool
  | JNum int
  | JStr string
  | JArr "jsval list"
  | JObj "(string \<times> jsval) list"

datatype js_error = TypeError | SyntaxError

text \<open>\<open>!v\<close> is \<open>\<not> truthy v\<close>: null, undefined, false, 0 and the empty string are falsy.\<close>

fun truthy :: "jsval \<Rightarrow> bool" where
  "truthy Undefined = False"
| "truthy JNull = False"
| "truthy (JBool b) = b"
| "truthy (JNum n) = (n \<noteq> 0)"
| "truthy (JStr s) = (s \<noteq> [])"
| "truthy (JArr xs) = True"
| "truthy (JObj kvs) = True"

text \<open>
  Reading a property \<open>v.name\<close>. On null and undefined it throws a TypeError. Arrays and
  strings have \<open>length\<close>; an object has its own properties; every other read of the names
  the script uses (\<open>length\<close>, \<open>question\<close>, \<open>answer\<close>) yields undefined.
\<close>

fun get_prop :: "jsval \<Rightarrow> string \<Rightarrow> js_error + jsval" where
  "get_prop Undefined name = Inl TypeError"
| "get_prop JNull name = Inl TypeError"
| "get_prop (JArr xs) name =
     Inr (if name = ''length'' then JNum (int (length xs)) else Undefined)"
| "get_prop (JStr s) name =
     Inr (if name = ''length'' then JNum (int (length s)) else Undefined)"
| "get_prop (JObj kvs) name =
     Inr (case map_of kvs name of None \<Rightarrow> Undefined | Some v \<Rightarrow> v)"
| "get_prop (JBool b) name = Inr Undefined"
| "get_prop (JNum n) name = Inr Undefined"

text \<open>
  The call \<open>v.includes(x)\<close> with a string \<open>x\<close>: membership on an array, substring search
  on a string; on every other value \<open>includes\<close> is not a function and the call throws.
\<close>

fun includes_call :: "jsval \<Rightarrow> string \<Rightarrow> js_error + bool" where
  "includes_call (JArr xs) x = Inr (JStr x \<in> set xs)"
| "includes_call (JStr s) x = Inr (sublist x s)"
| "includes_call v x = Inl TypeError"

text \<open>\<open>a[i]\<close>: undefined past the end.\<close>

definition js_nth :: "jsval list \<Rightarrow> nat \<Rightarrow> jsval" where
  "js_nth a i = (if i < length a then a ! i else Undefined)"

text \<open>\<open>a[i] = v\<close>: past the end the array grows, the gap reading as undefined.\<close>

definition js_set :: "jsval list \<Rightarrow> nat \<Rightarrow> jsval \<Rightarrow> jsval list" where
  "js_set a i v =
     (if i < length a then a[i := v]
      else a @ replicate (i - length a) Undefined @ [v])"

section \<open>JSON text\<close>

text \<open>
  A string held in local storage or in a response body is read only through
  \<open>JSON.parse\<close>, so it is represented by what \<open>JSON.parse\<close> makes of it: a syntax
  error, or the value it encodes. \<open>JSON.stringify\<close> of an array of strings is the text that
  encodes that array. \<open>localStorage.getItem\<close> gives null for a missing key, and
  \<open>JSON.parse(null)\<close> is null.
\<close>

datatype json_text = Unparsable | Encodes jsval

fun JSON_parse :: "json_text option \<Rightarrow> js_error + jsval" where
  "JSON_parse None = Inr JNull"
| "JSON_parse (Some Unparsable) = Inl SyntaxError"
| "JSON_parse (Some (Encodes v)) = Inr v"

definition JSON_stringify :: "string list \<Rightarrow> json_text" where
  "JSON_stringify xs = Encodes (JArr (map JStr xs))"

section \<open>The remote endpoint\<close>

datatype response = NetworkFailure | Http nat json_text

text \<open>\<open>response.ok\<close>: the status is in the range 200 to 299.\<close>

definition ok :: "nat \<Rightarrow> bool" where
  "ok status = (200 \<le> status \<and> status \<le> 299)"

definition APPS_SCRIPT_URL :: string where
  "APPS_SCRIPT_URL =
     ''https://script.google.com/macros/s/AKfycbz0BpOl-XMBbu0oXpEOCBL_QFwluIaS2DxSWq84wbrL3zuYK-LHdz0wlANw092gndDAoQ/exec''"

text \<open>
  \<open>encodeURIComponent\<close> on a string of UTF-8 bytes: letters, digits and
  \<open>- _ . ! ~ * ' ( )\<close> stay, every other byte becomes \<open>%XX\<close>.
\<close>

definition unreserved :: "char \<Rightarrow> bool" where
  "unreserved c =
     (c \<in> set ''ABCDEFGHIJKLMNOPQRSTUVWXYZabcdefghijklmnopqrstuvwxyz0123456789-_.!~*()''
      \<or> c = CHR 0x27)"

definition hex_digit :: "nat \<Rightarrow> char" where
  "hex_digit n = ''0123456789ABCDEF'' ! (n mod 16)"

definition encodeURIComponent :: "string \<Rightarrow> string" where
  "encodeURIComponent s =
     concat (map (\<lambda>c. if unreserved c then [c]
                       else [CHR ''%'', hex_digit (of_char c div 16), hex_digit (of_char c)]) s)"

definition request_url :: "string \<Rightarrow> string" where
  "request_url category = APPS_SCRIPT_URL @ ''?category='' @ encodeURIComponent category"

section \<open>The popup's state\<close>

datatype log_entry =
    ErrorFetching string nat
  | InvalidData string
  | FetchError string js_error

text \<open>
  The page and the script's global: the category checkboxes (value and checked state), local
  storage, the value last assigned to the text of the question and answer elements, the
  \<open>hidden\<close> class of the four elements the script shows and hides, the question pool, the
  lines written by \<open>console.error\<close>, the URLs requested so far, and the number of calls of
  \<open>Math.random\<close> so far.
\<close>

record popup =
  checkboxes :: "(string \<times> bool) list"
  localStorage :: "string \<rightharpoonup> json_text"
  questionText :: jsval
  answerText :: jsval
  answerText_hidden :: bool
  showAnswerBtn_hidden :: bool
  nextQuestionBtn_hidden :: bool
  loadingSpinner_hidden :: bool
  allQuestions :: "jsval list"
  console :: "log_entry list"
  requests :: "string list"
  random_calls :: nat

text \<open>How a handler ends: it returns, or an exception leaves it uncaught.\<close>

datatype outcome = Completed popup | Uncaught js_error popup

fun state_of :: "outcome \<Rightarrow> popup" where
  "state_of (Completed s) = s"
| "state_of (Uncaught e s) = s"

fun thrown :: "outcome \<Rightarrow> js_error option" where
  "thrown (Completed s) = None"
| "thrown (Uncaught e s) = Some e"

section \<open>Randomness\<close>

text \<open>
  \<open>Math.random()\<close> is a stream of numbers, each at least 0 and below 1; the \<open>k\<close>-th call
  returns \<open>rng k\<close>, and \<open>unit_interval\<close> says that the stream keeps to that range.
  \<open>random_index u n\<close> is \<open>Math.floor(u * n)\<close> for such a number \<open>u\<close>, computed exactly
  (no rounding of the product).
\<close>

definition random_index :: "rat \<Rightarrow> nat \<Rightarrow> nat" where
  "random_index u n = nat \<lfloor>u * of_nat n\<rfloor>"

definition unit_interval :: "(nat \<Rightarrow> rat) \<Rightarrow> bool" where
  "unit_interval rng = (\<forall>k. 0 \<le> rng k \<and> rng k < 1)"

section \<open>The script\<close>

text \<open>
  \<open>shuffleArray\<close>: the loop \<open>for (let i = array.length - 1; i > 0; i--)\<close> with the swap
  \<open>[array[i], array[j]] = [array[j], array[i]]\<close>, which reads both elements and then
  writes \<open>array[i]\<close> and \<open>array[j]\<close> in that order. \<open>k\<close> counts the calls of
  \<open>Math.random\<close>.
\<close>

definition swap_at :: "nat \<Rightarrow> nat \<Rightarrow> jsval list \<Rightarrow> jsval list" where
  "swap_at i j a = (let x = js_nth a j; y = js_nth a i in js_set (js_set a i x) j y)"

fun shuffle_loop :: "(nat \<Rightarrow> rat) \<Rightarrow> nat \<Rightarrow> nat \<Rightarrow> jsval list \<Rightarrow> jsval list \<times> nat" where
  "shuffle_loop rng 0 k a = (a, k)"
| "shuffle_loop rng (Suc i) k a =
     (let j = random_index (rng k) (Suc i + 1)
      in shuffle_loop rng i (k + 1) (swap_at (Suc i) j a))"

definition shuffleArray :: "(nat \<Rightarrow> rat) \<Rightarrow> nat \<Rightarrow> jsval list \<Rightarrow> jsval list \<times> nat" where
  "shuffleArray rng k a = shuffle_loop rng (length a - 1) k a"

definition toggleLoading :: "bool \<Rightarrow> popup \<Rightarrow> popup" where
  "toggleLoading isLoading s =
     (if isLoading then s\<lparr>loadingSpinner_hidden := False, questionText := JStr ''''\<rparr>
      else s\<lparr>loadingSpinner_hidden := True\<rparr>)"

definition login_message :: string where
  "login_message = ''Please make sure you are logged into only one Google account in your browser, as the extension will not work correctly with multiple accounts. ''"

definition displayNextQuestion :: "(nat \<Rightarrow> rat) \<Rightarrow> popup \<Rightarrow> outcome" where
  "displayNextQuestion rng s =
     (if length (allQuestions s) = 0 then
        Completed (s\<lparr>questionText := JStr login_message,
                     answerText_hidden := True,
                     showAnswerBtn_hidden := True,
                     nextQuestionBtn_hidden := True\<rparr>)
      else
        let randomIndex = random_index (rng (random_calls s)) (length (allQuestions s));
            s1 = s\<lparr>random_calls := random_calls s + 1\<rparr>;
            questionData = js_nth (allQuestions s) randomIndex
        in case get_prop questionData ''question'' of
             Inl e \<Rightarrow> Uncaught e s1
           | Inr q \<Rightarrow>
               (case get_prop questionData ''answer'' of
                  Inl e \<Rightarrow> Uncaught e (s1\<lparr>questionText := q\<rparr>)
                | Inr a \<Rightarrow>
                    Completed (s1\<lparr>questionText := q,
                                  answerText := a,
                                  answerText_hidden := True,
                                  showAnswerBtn_hidden := False,
                                  nextQuestionBtn_hidden := False\<rparr>)))"

text \<open>
  One turn of the loop of \<open>fetchQuestions\<close>: the request, the status check, the parse of the
  body and the array check, with the \<open>catch\<close> around them. A network failure rejects
  \<open>fetch\<close> with a TypeError, a body that is not JSON rejects \<open>response.json()\<close> with a
  SyntaxError.
\<close>

definition fetch_category :: "(string \<Rightarrow> response) \<Rightarrow> string \<Rightarrow> popup \<Rightarrow> popup" where
  "fetch_category remote category s =
     (let s1 = s\<lparr>requests := requests s @ [request_url category]\<rparr>
      in case remote (request_url category) of
           NetworkFailure \<Rightarrow> s1\<lparr>console := console s1 @ [FetchError category TypeError]\<rparr>
         | Http status body \<Rightarrow>
             if \<not> ok status then
               s1\<lparr>console := console s1 @ [ErrorFetching category status]\<rparr>
             else
               (case JSON_parse (Some body) of
                  Inl e \<Rightarrow> s1\<lparr>console := console s1 @ [FetchError category e]\<rparr>
                | Inr newQuestions \<Rightarrow>
                    (case newQuestions of
                       JArr qs \<Rightarrow> s1\<lparr>allQuestions := allQuestions s1 @ qs\<rparr>
                     | _ \<Rightarrow> s1\<lparr>console := console s1 @ [InvalidData category]\<rparr>)))"

fun fetch_loop :: "(string \<Rightarrow> response) \<Rightarrow> string list \<Rightarrow> popup \<Rightarrow> popup" where
  "fetch_loop remote [] s = s"
| "fetch_loop remote (category # categories) s =
     fetch_loop remote categories (fetch_category remote category s)"

text \<open>
  \<open>fetchQuestions\<close>, run from its first statement to its last with no other handler in
  between. The function is async; the section on its awaits below gives it stretch by
  stretch, and \<open>run_alone\<close> shows that a call that nothing interrupts is this function.
\<close>

definition fetchQuestions :: "(string \<Rightarrow> response) \<Rightarrow> (nat \<Rightarrow> rat) \<Rightarrow> string list \<Rightarrow> popup \<Rightarrow> outcome" where
  "fetchQuestions remote rng categories s =
     (let s1 = s\<lparr>allQuestions := []\<rparr>;
          s2 = toggleLoading True s1;
          s3 = s2\<lparr>showAnswerBtn_hidden := True, nextQuestionBtn_hidden := True\<rparr>;
          s4 = fetch_loop remote categories s3;
          (a, k) = shuffleArray rng (random_calls s4) (allQuestions s4);
          s5 = s4\<lparr>allQuestions := a, random_calls := k\<rparr>;
          s6 = toggleLoading False s5
      in displayNextQuestion rng s6)"

definition checked_values :: "popup \<Rightarrow> string list" where
  "checked_values s = map fst (filter snd (checkboxes s))"

definition select_message :: string where
  "select_message = ''Please select at least one category.''"

definition fetchQuestion :: "(string \<Rightarrow> response) \<Rightarrow> (nat \<Rightarrow> rat) \<Rightarrow> popup \<Rightarrow> outcome" where
  "fetchQuestion remote rng s =
     (let selectedCategories = checked_values s
      in if length selectedCategories = 0 then
           Completed (s\<lparr>questionText := JStr select_message,
                        answerText_hidden := True,
                        showAnswerBtn_hidden := True,
                        nextQuestionBtn_hidden := True,
                        loadingSpinner_hidden := True\<rparr>)
         else fetchQuestions remote rng selectedCategories s)"

definition saveCategorySelections :: "(string \<Rightarrow> response) \<Rightarrow> (nat \<Rightarrow> rat) \<Rightarrow> popup \<Rightarrow> outcome" where
  "saveCategorySelections remote rng s =
     (let selectedCategories = checked_values s;
          s1 = s\<lparr>localStorage := (localStorage s)(''selectedCategories'' \<mapsto> JSON_stringify selectedCategories)\<rparr>
      in fetchQuestion remote rng s1)"

text \<open>
  The \<open>forEach\<close> that sets each checkbox from the saved value; it stops at the first call of
  \<open>includes\<close> that throws, the checkboxes before it already set.
\<close>

fun apply_checkboxes :: "jsval \<Rightarrow> (string \<times> bool) list \<Rightarrow> js_error option \<times> (string \<times> bool) list" where
  "apply_checkboxes saved [] = (None, [])"
| "apply_checkboxes saved ((v, c) # rest) =
     (case includes_call saved v of
        Inl e \<Rightarrow> (Some e, (v, c) # rest)
      | Inr b \<Rightarrow> (case apply_checkboxes saved rest of (r, rest') \<Rightarrow> (r, (v, b) # rest')))"

text \<open>The handler of \<open>DOMContentLoaded\<close>.\<close>

definition DOMContentLoaded :: "(string \<Rightarrow> response) \<Rightarrow> (nat \<Rightarrow> rat) \<Rightarrow> popup \<Rightarrow> outcome" where
  "DOMContentLoaded remote rng s =
     (let s1 = s\<lparr>showAnswerBtn_hidden := True, nextQuestionBtn_hidden := True\<rparr>
      in case JSON_parse (localStorage s1 ''selectedCategories'') of
           Inl e \<Rightarrow> Uncaught e s1
         | Inr parsed \<Rightarrow>
            (let use_default =
                   (\<not> truthy parsed \<or> get_prop parsed ''length'' = Inr (JNum 0));
                 savedCategories =
                   (if use_default then JArr [JStr ''Cypress''] else parsed);
                 s2 = (if use_default
                       then s1\<lparr>localStorage := (localStorage s1)(''selectedCategories'' \<mapsto> JSON_stringify [''Cypress''])\<rparr>
                       else s1)
             in case apply_checkboxes savedCategories (checkboxes s2) of
                  (Some e, cbs) \<Rightarrow> Uncaught e (s2\<lparr>checkboxes := cbs\<rparr>)
                | (None, cbs) \<Rightarrow> fetchQuestion remote rng (s2\<lparr>checkboxes := cbs\<rparr>)))"

text \<open>The click handlers of the reveal button and of the next-question button.\<close>

definition showAnswerBtn_click :: "popup \<Rightarrow> popup" where
  "showAnswerBtn_click s = s\<lparr>answerText_hidden := \<not> answerText_hidden s\<rparr>"

definition nextQuestionBtn_click :: "(nat \<Rightarrow> rat) \<Rightarrow> popup \<Rightarrow> outcome" where
  "nextQuestionBtn_click rng s = displayNextQuestion rng (s\<lparr>answerText_hidden := True\<rparr>)"

section \<open>The fetch cycle between its awaits\<close>

text \<open>
  \<open>fetchQuestions\<close> is an async function. A call runs up to the first \<open>await\<close> and
  returns; the rest runs later, one stretch per \<open>await\<close>: after \<open>fetch\<close> settles (line
  78) and after \<open>response.json()\<close> settles (line 83). Between two stretches other handlers
  run, among them further calls of \<open>fetchQuestions\<close>. A suspended call is a task: the
  category being fetched, the categories still to come and what is awaited. All calls
  read and write the one global \<open>allQuestions\<close>.
\<close>

datatype awaiting = Response | Body json_text

datatype task = Task string "string list" awaiting

datatype progress = Suspended popup task | Finished outcome

text \<open>Lines 94 to 96: shuffle, hide the spinner, display.\<close>

definition finish :: "(nat \<Rightarrow> rat) \<Rightarrow> popup \<Rightarrow> outcome" where
  "finish rng s4 =
     (let (a, k) = shuffleArray rng (random_calls s4) (allQuestions s4);
          s5 = s4\<lparr>allQuestions := a, random_calls := k\<rparr>;
          s6 = toggleLoading False s5
      in displayNextQuestion rng s6)"

text \<open>The head of the loop: send the request for the next category, or leave the loop.\<close>

fun next_turn :: "(nat \<Rightarrow> rat) \<Rightarrow> string list \<Rightarrow> popup \<Rightarrow> progress" where
  "next_turn rng [] s = Finished (finish rng s)"
| "next_turn rng (category # categories) s =
     Suspended (s\<lparr>requests := requests s @ [request_url category]\<rparr>)
       (Task category categories Response)"

text \<open>The call itself, up to the first \<open>await\<close>.\<close>

definition fetchQuestions_start :: "(nat \<Rightarrow> rat) \<Rightarrow> string list \<Rightarrow> popup \<Rightarrow> progress" where
  "fetchQuestions_start rng categories s =
     (let s1 = s\<lparr>allQuestions := []\<rparr>;
          s2 = toggleLoading True s1;
          s3 = s2\<lparr>showAnswerBtn_hidden := True, nextQuestionBtn_hidden := True\<rparr>
      in next_turn rng categories s3)"

text \<open>One stretch of a suspended call, from the \<open>await\<close> it stopped at to the next one.\<close>

fun resume :: "(string \<Rightarrow> response) \<Rightarrow> (nat \<Rightarrow> rat) \<Rightarrow> task \<Rightarrow> popup \<Rightarrow> progress" where
  "resume remote rng (Task category categories Response) s =
     (case remote (request_url category) of
        NetworkFailure \<Rightarrow>
          next_turn rng categories (s\<lparr>console := console s @ [FetchError category TypeError]\<rparr>)
      | Http status body \<Rightarrow>
          if \<not> ok status then
            next_turn rng categories (s\<lparr>console := console s @ [ErrorFetching category status]\<rparr>)
          else Suspended s (Task category categories (Body body)))"
| "resume remote rng (Task category categories (Body body)) s =
     (case JSON_parse (Some body) of
        Inl e \<Rightarrow> next_turn rng categories (s\<lparr>console := console s @ [FetchError category e]\<rparr>)
      | Inr newQuestions \<Rightarrow>
          (case newQuestions of
             JArr qs \<Rightarrow> next_turn rng categories (s\<lparr>allQuestions := allQuestions s @ qs\<rparr>)
           | _ \<Rightarrow> next_turn rng categories (s\<lparr>console := console s @ [InvalidData category]\<rparr>)))"

text \<open>
  A call on its own: nothing else runs between its stretches. \<open>turns_left\<close> bounds the
  stretches still to come, so the call ends.
\<close>

fun turns_left :: "progress \<Rightarrow> nat" where
  "turns_left (Finished out) = 0"
| "turns_left (Suspended s (Task category categories Response)) = 2 * length categories + 2"
| "turns_left (Suspended s (Task category categories (Body body))) = 2 * length categories + 1"

function run :: "(string \<Rightarrow> response) \<Rightarrow> (nat \<Rightarrow> rat) \<Rightarrow> progress \<Rightarrow> outcome" where
  "run remote rng (Finished out) = out"
| "run remote rng (Suspended s t) = run remote rng (resume remote rng t s)"
  by pat_completeness auto
termination
proof (relation "measure (\<lambda>(remote, rng, p). turns_left p)")
  show "wf (measure (\<lambda>(remote, rng, p). turns_left p))"
    by simp
next
  fix remote :: "string \<Rightarrow> response" and rng :: "nat \<Rightarrow> rat" and s t
  have nt: "turns_left (next_turn rng cs s') < Suc (2 * length cs)"
    "turns_left (next_turn rng cs s') < Suc (Suc (2 * length cs))" for cs s'
    by (cases cs; simp)+
  have "turns_left (resume remote rng t s) < turns_left (Suspended s t)"
  proof (cases t)
    case (Task c cs w)
    show ?thesis
      unfolding Task
      by (cases w) (simp_all add: nt split: response.splits sum.splits jsval.splits)
  qed
  then show "((remote, rng, resume remote rng t s), remote, rng, Suspended s t)
      \<in> measure (\<lambda>(remote, rng, p). turns_left p)"
    by simp
qed

text \<open>
  A change of the checkbox at position \<open>n\<close>: the browser flips it, then the change handler
  \<open>saveCategorySelections\<close> runs, up to the first \<open>await\<close> of the fetch it starts.
\<close>

fun flip :: "nat \<Rightarrow> (string \<times> bool) list \<Rightarrow> (string \<times> bool) list" where
  "flip n [] = []"
| "flip 0 ((v, c) # cbs) = (v, \<not> c) # cbs"
| "flip (Suc n) (cb # cbs) = cb # flip n cbs"

definition fetchQuestion_start :: "(nat \<Rightarrow> rat) \<Rightarrow> popup \<Rightarrow> progress" where
  "fetchQuestion_start rng s =
     (let selectedCategories = checked_values s
      in if length selectedCategories = 0 then
           Finished (Completed (s\<lparr>questionText := JStr select_message,
                        answerText_hidden := True,
                        showAnswerBtn_hidden := True,
                        nextQuestionBtn_hidden := True,
                        loadingSpinner_hidden := True\<rparr>))
         else fetchQuestions_start rng selectedCategories s)"

definition change :: "(nat \<Rightarrow> rat) \<Rightarrow> nat \<Rightarrow> popup \<Rightarrow> progress" where
  "change rng n s =
     (let s0 = s\<lparr>checkboxes := flip n (checkboxes s)\<rparr>;
          selectedCategories = checked_values s0;
          s1 = s0\<lparr>localStorage := (localStorage s0)(''selectedCategories'' \<mapsto> JSON_stringify selectedCategories)\<rparr>
      in fetchQuestion_start rng s1)"

text \<open>
  The page with its suspended calls, and what happens to it: a checkbox changes, or the
  awaited result of the suspended call at a position arrives. A call that finishes leaves
  the list.
\<close>

datatype event = Change nat | Resume nat

fun settle :: "progress \<Rightarrow> task list \<Rightarrow> task list \<Rightarrow> popup \<times> task list" where
  "settle (Suspended s t) before after = (s, before @ t # after)"
| "settle (Finished out) before after = (state_of out, before @ after)"

fun handle :: "(string \<Rightarrow> response) \<Rightarrow> (nat \<Rightarrow> rat) \<Rightarrow> popup \<times> task list \<Rightarrow> event \<Rightarrow> popup \<times> task list" where
  "handle remote rng (s, tasks) (Change n) = settle (change rng n s) tasks []"
| "handle remote rng (s, tasks) (Resume i) =
     (if i < length tasks
      then settle (resume remote rng (tasks ! i) s) (take i tasks) (drop (Suc i) tasks)
      else (s, tasks))"

definition run_events :: "(string \<Rightarrow> response) \<Rightarrow> (nat \<Rightarrow> rat) \<Rightarrow> event list \<Rightarrow> popup \<times> task list \<Rightarrow> popup \<times> task list" where
  "run_events remote rng events page = foldl (handle remote rng) page events"

section \<open>Notions the properties are stated with\<close>

text \<open>A page to run the handlers on: the given checkboxes, storage and pool, nothing hidden.\<close>

definition example_page :: "(string \<times> bool) list \<Rightarrow> (string \<rightharpoonup> json_text) \<Rightarrow> jsval list \<Rightarrow> popup" where
  "example_page cbs store pool =
     \<lparr>checkboxes = cbs, localStorage = store,
      questionText = JStr [], answerText = JStr [],
      answerText_hidden = False, showAnswerBtn_hidden = False,
      nextQuestionBtn_hidden = False, loadingSpinner_hidden = False,
      allQuestions = pool, console = [], requests = [], random_calls = 0\<rparr>"

text \<open>
  What a category's response contributes: the array, when the status is a success and the
  body is JSON text of an array; nothing on a network failure, any other status, a body
  that does not parse, or a body that is not an array.
\<close>

fun fetched_array :: "response \<Rightarrow> jsval list option" where
  "fetched_array (Http status (Encodes (JArr qs))) = (if ok status then Some qs else None)"
| "fetched_array r = None"

definition fetched :: "(string \<Rightarrow> response) \<Rightarrow> string \<Rightarrow> jsval list" where
  "fetched remote category =
     (case fetched_array (remote (request_url category)) of None \<Rightarrow> [] | Some qs \<Rightarrow> qs)"

definition fetch_failed :: "(string \<Rightarrow> response) \<Rightarrow> string \<Rightarrow> bool" where
  "fetch_failed remote category = (fetched_array (remote (request_url category)) = None)"

fun log_category :: "log_entry \<Rightarrow> string" where
  "log_category (ErrorFetching category status) = category"
| "log_category (InvalidData category) = category"
| "log_category (FetchError category e) = category"

text \<open>The page shows the question \<open>q\<close>: the two text elements hold its two properties.\<close>

definition displays :: "popup \<Rightarrow> jsval \<Rightarrow> bool" where
  "displays s q =
     (get_prop q ''question'' = Inr (questionText s) \<and> get_prop q ''answer'' = Inr (answerText s))"

subsection \<open>The Fisher-Yates shuffle as the specification words it\<close>

text \<open>
  Index \<open>i\<close> runs from the last index down to 1 and element \<open>i\<close> is swapped with element
  \<open>j\<close>, the next of the given indices. \<open>all_draws i\<close> lists every sequence of indices in
  which the index used at \<open>i\<close> lies in \<open>[0, i]\<close>; \<open>index_draws\<close> is the sequence the
  script computes from \<open>Math.random\<close>.
\<close>

fun fisher_yates :: "nat \<Rightarrow> nat list \<Rightarrow> 'a list \<Rightarrow> 'a list" where
  "fisher_yates 0 js a = a"
| "fisher_yates (Suc i) [] a = a"
| "fisher_yates (Suc i) (j # js) a = fisher_yates i js (a[Suc i := a ! j, j := a ! Suc i])"

fun all_draws :: "nat \<Rightarrow> nat list list" where
  "all_draws 0 = [[]]"
| "all_draws (Suc i) = concat (map (\<lambda>j. map ((#) j) (all_draws i)) [0..<Suc (Suc i)])"

fun index_draws :: "(nat \<Rightarrow> rat) \<Rightarrow> nat \<Rightarrow> nat \<Rightarrow> nat list" where
  "index_draws rng 0 k = []"
| "index_draws rng (Suc i) k = random_index (rng k) (Suc i + 1) # index_draws rng i (k + 1)"




section \<open>What the handlers leave alone\<close>

lemma displayNextQuestion_frame:
  "localStorage (state_of (displayNextQuestion rng s)) = localStorage s"
  "checkboxes (state_of (displayNextQuestion rng s)) = checkboxes s"
  "allQuestions (state_of (displayNextQuestion rng s)) = allQuestions s"
  "requests (state_of (displayNextQuestion rng s)) = requests s"
  "console (state_of (displayNextQuestion rng s)) = console s"
  "loadingSpinner_hidden (state_of (displayNextQuestion rng s)) = loadingSpinner_hidden s"
  by (simp_all add: displayNextQuestion_def Let_def split: sum.splits)

lemma fetch_category_frame:
  "localStorage (fetch_category remote c s) = localStorage s"
  "checkboxes (fetch_category remote c s) = checkboxes s"
  "requests (fetch_category remote c s) = requests s @ [request_url c]"
  "random_calls (fetch_category remote c s) = random_calls s"
  "loadingSpinner_hidden (fetch_category remote c s) = loadingSpinner_hidden s"
  by (simp_all add: fetch_category_def Let_def split: response.splits sum.splits jsval.splits)

lemma fetch_loop_frame:
  "localStorage (fetch_loop remote cs s) = localStorage s"
  "checkboxes (fetch_loop remote cs s) = checkboxes s"
  "requests (fetch_loop remote cs s) = requests s @ map request_url cs"
  "random_calls (fetch_loop remote cs s) = random_calls s"
  "loadingSpinner_hidden (fetch_loop remote cs s) = loadingSpinner_hidden s"
  by (induction cs arbitrary: s; simp add: fetch_category_frame)+

lemma fetchQuestions_frame:
  "localStorage (state_of (fetchQuestions remote rng cs s)) = localStorage s"
  "checkboxes (state_of (fetchQuestions remote rng cs s)) = checkboxes s"
  "requests (state_of (fetchQuestions remote rng cs s)) = requests s @ map request_url cs"
  "loadingSpinner_hidden (state_of (fetchQuestions remote rng cs s))"
  by (simp_all add: fetchQuestions_def Let_def toggleLoading_def displayNextQuestion_frame
      fetch_loop_frame split: prod.splits)

lemma fetchQuestion_frame:
  "localStorage (state_of (fetchQuestion remote rng s)) = localStorage s"
  "checkboxes (state_of (fetchQuestion remote rng s)) = checkboxes s"
  "loadingSpinner_hidden (state_of (fetchQuestion remote rng s))"
  by (simp_all add: fetchQuestion_def Let_def fetchQuestions_frame)

lemma apply_checkboxes_array:
  "apply_checkboxes (JArr xs) cbs = (None, map (\<lambda>(v, c). (v, JStr v \<in> set xs)) cbs)"
  by (induction cbs) auto

section \<open>Random indices and the shuffle\<close>

lemma random_index_less:
  assumes "0 \<le> u" "u < 1" "0 < n"
  shows "random_index u n < n"
proof -
  have "u * of_nat n < of_nat n"
    using assms by simp
  then have "\<lfloor>u * of_nat n\<rfloor> < int n"
    by (simp add: floor_less_iff)
  moreover have "0 \<le> \<lfloor>u * of_nat n\<rfloor>"
    using assms by simp
  ultimately show ?thesis
    unfolding random_index_def by linarith
qed

lemma random_index_onto:
  assumes "i < n"
  shows "random_index (of_nat i / of_nat n) n = i"
  using assms by (simp add: random_index_def)

lemma swap_at_in_range:
  "i < length a \<Longrightarrow> j < length a \<Longrightarrow> swap_at i j a = a[i := a ! j, j := a ! i]"
  by (simp add: swap_at_def js_nth_def js_set_def)

lemma all_draws_Cons:
  "j # js \<in> set (all_draws (Suc i)) \<longleftrightarrow> j < Suc (Suc i) \<and> js \<in> set (all_draws i)"
  by (auto simp del: upt_Suc)

lemma shuffle_loop_refines:
  "unit_interval rng \<Longrightarrow> i < length a \<Longrightarrow>
     shuffle_loop rng i k a = (fisher_yates i (index_draws rng i k) a, k + i)
     \<and> index_draws rng i k \<in> set (all_draws i)"
proof (induction i arbitrary: k a)
  case 0
  then show ?case by simp
next
  case (Suc i)
  let ?j = "random_index (rng k) (Suc (Suc i))"
  have j: "?j < Suc (Suc i)"
    using Suc.prems(1) by (intro random_index_less) (simp_all add: unit_interval_def)
  then have jl: "?j < length a" using Suc.prems(2) by simp
  have sw: "swap_at (Suc i) ?j a = a[Suc i := a ! ?j, ?j := a ! Suc i]"
    using Suc.prems(2) jl by (rule swap_at_in_range)
  have "i < length (swap_at (Suc i) ?j a)"
    unfolding sw using Suc.prems(2) by simp
  from Suc.IH [OF Suc.prems(1) this, of "k + 1"] j
  show ?case
    by (simp add: sw all_draws_Cons del: all_draws.simps)
qed


lemma fisher_yates_mset:
  "js \<in> set (all_draws i) \<Longrightarrow> i < length a \<Longrightarrow>
     mset (fisher_yates i js a) = mset a \<and> length (fisher_yates i js a) = length a"
proof (induction i arbitrary: js a)
  case 0
  then show ?case by simp
next
  case (Suc i)
  then obtain j js' where js: "js = j # js'" "j < Suc (Suc i)" "js' \<in> set (all_draws i)"
    by auto
  have "mset (a[Suc i := a ! j, j := a ! Suc i]) = mset a"
    using Suc.prems(2) js(2) by (intro mset_swap) simp_all
  with Suc.IH [OF js(3), of "a[Suc i := a ! j, j := a ! Suc i]"] Suc.prems(2) js(1)
  show ?case by simp
qed

lemma shuffleArray_mset:
  assumes "unit_interval rng"
  shows "mset (fst (shuffleArray rng k a)) = mset a"
proof (cases "a = []")
  case True
  then show ?thesis by (simp add: shuffleArray_def)
next
  case False
  then have l: "length a - 1 < length a" by simp
  from shuffle_loop_refines [OF assms l, of k] fisher_yates_mset [OF _ l]
  show ?thesis by (simp add: shuffleArray_def)
qed

section \<open>Counting the draws of the shuffle\<close>















section \<open>The fetch cycle and initialization\<close>

lemma fetched_array_Http:
  "fetched_array (Http status body) =
     (case JSON_parse (Some body) of
        Inr (JArr qs) \<Rightarrow> if ok status then Some qs else None
      | _ \<Rightarrow> None)"
  by (cases "Http status body" rule: fetched_array.cases) simp_all

lemma fetch_category_effect:
  "allQuestions (fetch_category remote c s) = allQuestions s @ fetched remote c"
  "map log_category (console (fetch_category remote c s))
     = map log_category (console s) @ (if fetch_failed remote c then [c] else [])"
  by (auto simp: fetch_category_def fetched_def fetch_failed_def Let_def fetched_array_Http
      split: response.splits sum.splits jsval.splits)

lemma fetch_loop_effect:
  "allQuestions (fetch_loop remote cs s) = allQuestions s @ concat (map (fetched remote) cs)"
  "map log_category (console (fetch_loop remote cs s))
     = map log_category (console s) @ filter (fetch_failed remote) cs"
  by (induction cs arbitrary: s; simp add: fetch_category_effect)+


lemma fetchQuestions_decompose:
  "\<exists>s6. fetchQuestions remote rng cs s = displayNextQuestion rng s6
         \<and> requests s6 = requests s @ map request_url cs
         \<and> map log_category (console s6)
             = map log_category (console s) @ filter (fetch_failed remote) cs
         \<and> allQuestions s6
             = fst (shuffleArray rng (random_calls s) (concat (map (fetched remote) cs)))
         \<and> random_calls s6
             = snd (shuffleArray rng (random_calls s) (concat (map (fetched remote) cs)))
         \<and> loadingSpinner_hidden s6"
proof -
  define s3 where "s3 = (toggleLoading True (s\<lparr>allQuestions := []\<rparr>))
                          \<lparr>showAnswerBtn_hidden := True, nextQuestionBtn_hidden := True\<rparr>"
  define s4 where "s4 = fetch_loop remote cs s3"
  obtain a k where sh: "shuffleArray rng (random_calls s4) (allQuestions s4) = (a, k)"
    by (cases "shuffleArray rng (random_calls s4) (allQuestions s4)")
  define s6 where "s6 = toggleLoading False (s4\<lparr>allQuestions := a, random_calls := k\<rparr>)"
  have run: "fetchQuestions remote rng cs s = displayNextQuestion rng s6"
    using sh unfolding fetchQuestions_def Let_def s6_def s4_def s3_def by simp
  have s3: "allQuestions s3 = []" "requests s3 = requests s" "console s3 = console s"
    "random_calls s3 = random_calls s"
    by (simp_all add: s3_def toggleLoading_def)
  have s4: "allQuestions s4 = concat (map (fetched remote) cs)" "random_calls s4 = random_calls s"
    by (simp_all add: s4_def fetch_loop_effect fetch_loop_frame s3)
  have pool: "allQuestions s6
      = fst (shuffleArray rng (random_calls s) (concat (map (fetched remote) cs)))"
    using sh by (simp add: s6_def toggleLoading_def s4)
  have calls: "random_calls s6
      = snd (shuffleArray rng (random_calls s) (concat (map (fetched remote) cs)))"
    using sh by (simp add: s6_def toggleLoading_def s4)
  have "requests s6 = requests s @ map request_url cs"
    by (simp add: s6_def toggleLoading_def s4_def fetch_loop_frame s3)
  moreover have "map log_category (console s6)
      = map log_category (console s) @ filter (fetch_failed remote) cs"
    by (simp add: s6_def toggleLoading_def s4_def fetch_loop_effect s3)
  moreover have "loadingSpinner_hidden s6"
    by (simp add: s6_def toggleLoading_def)
  ultimately show ?thesis
    using run pool calls by blast
qed

lemma run_next_turn:
  "run remote rng (next_turn rng cs s) = finish rng (fetch_loop remote cs s)"
proof (induction cs arbitrary: s)
  case Nil
  then show ?case by simp
next
  case (Cons c cs)
  show ?case
    by (simp add: fetch_category_def Let_def Cons.IH
        split: response.splits sum.splits jsval.splits)
qed

lemma run_alone:
  "run remote rng (fetchQuestions_start rng cs s) = fetchQuestions remote rng cs s"
  by (simp add: fetchQuestions_start_def fetchQuestions_def run_next_turn finish_def Let_def)

lemma display_member:
  assumes "displayNextQuestion rng t = Completed t'" "allQuestions t \<noteq> []"
  shows "\<exists>q\<in>set (allQuestions t). displays t' q"
proof -
  let ?i = "random_index (rng (random_calls t)) (length (allQuestions t))"
  have "?i < length (allQuestions t)"
  proof (rule ccontr)
    assume "\<not> ?i < length (allQuestions t)"
    then have "js_nth (allQuestions t) ?i = Undefined"
      by (simp add: js_nth_def)
    with assms show False
      by (simp add: displayNextQuestion_def Let_def)
  qed
  then have "js_nth (allQuestions t) ?i \<in> set (allQuestions t)"
    by (simp add: js_nth_def)
  moreover have "displays t' (js_nth (allQuestions t) ?i)"
    using assms
    by (auto simp: displayNextQuestion_def Let_def displays_def split: sum.splits)
  ultimately show ?thesis by blast
qed

lemma fetched_success:
  assumes "ok status" "remote (request_url c) = Http status (Encodes (JArr qs))"
  shows "fetched remote c = qs"
  using assms by (simp add: fetched_def)


lemma DOMContentLoaded_default:
  "localStorage s ''selectedCategories'' = None
   \<or> localStorage s ''selectedCategories'' = Some (Encodes (JArr [])) \<Longrightarrow>
     localStorage (state_of (DOMContentLoaded remote rng s)) ''selectedCategories''
       = Some (Encodes (JArr [JStr ''Cypress'']))
     \<and> checkboxes (state_of (DOMContentLoaded remote rng s))
       = map (\<lambda>(v, c). (v, v = ''Cypress'')) (checkboxes s)"
  by (auto simp: DOMContentLoaded_def Let_def apply_checkboxes_array fetchQuestion_frame
      JSON_stringify_def)

lemma displayNextQuestion_at:
  assumes "i < length (allQuestions s)"
    and "rng (random_calls s) = of_nat i / of_nat (length (allQuestions s))"
    and "get_prop (allQuestions s ! i) ''question'' = Inr a"
    and "get_prop (allQuestions s ! i) ''answer'' = Inr b"
  shows "displayNextQuestion rng s =
           Completed (s\<lparr>random_calls := random_calls s + 1, questionText := a, answerText := b,
                        answerText_hidden := True, showAnswerBtn_hidden := False,
                        nextQuestionBtn_hidden := False\<rparr>)"
proof -
  have "allQuestions s \<noteq> []"
    using assms(1) by auto
  then show ?thesis
    using assms by (simp add: displayNextQuestion_def Let_def random_index_onto js_nth_def)
qed

lemma unit_fraction:
  assumes "i < n"
  shows "0 \<le> (of_nat i / of_nat n :: rat) \<and> (of_nat i / of_nat n :: rat) < 1"
  using assms by simp

lemma fetchQuestions_pool:
  assumes "unit_interval rng"
    and "\<forall>c\<in>set cs. \<exists>status. ok status
            \<and> remote (request_url c) = Http status (Encodes (JArr (qs c)))"
  shows "mset (allQuestions (state_of (fetchQuestions remote rng cs s)))
           = mset (concat (map qs cs))
         \<and> length (allQuestions (state_of (fetchQuestions remote rng cs s)))
           = sum_list (map (\<lambda>c. length (qs c)) cs)
         \<and> (\<forall>t. fetchQuestions remote rng cs s = Completed t \<and> allQuestions t \<noteq> []
               \<longrightarrow> (\<exists>q\<in>set (concat (map qs cs)). displays t q))
         \<and> (\<forall>rng' t t'. mset (allQuestions t)
                 = mset (allQuestions (state_of (fetchQuestions remote rng cs s)))
               \<and> allQuestions t \<noteq> [] \<and> displayNextQuestion rng' t = Completed t'
               \<longrightarrow> (\<exists>q\<in>set (concat (map qs cs)). displays t' q))"
proof -
  have "map (fetched remote) cs = map qs cs"
    using assms(2) by (auto simp: fetched_success)
  with fetchQuestions_decompose [of remote rng cs s]
  obtain s6 where s6: "fetchQuestions remote rng cs s = displayNextQuestion rng s6"
    "mset (allQuestions s6) = mset (concat (map qs cs))"
    by (auto simp: shuffleArray_mset [OF assms(1)])
  have pool: "mset (allQuestions (state_of (fetchQuestions remote rng cs s)))
      = mset (concat (map qs cs))"
    by (simp add: s6 displayNextQuestion_frame)
  have len: "length (allQuestions (state_of (fetchQuestions remote rng cs s)))
      = sum_list (map (\<lambda>c. length (qs c)) cs)"
    using arg_cong [OF pool, of size] by (simp add: length_concat comp_def)
  have shown: "\<exists>q\<in>set (concat (map qs cs)). displays t' q"
    if "mset (allQuestions t) = mset (concat (map qs cs))" "allQuestions t \<noteq> []"
      "displayNextQuestion rng' t = Completed t'" for rng' t t'
  proof -
    from display_member [OF that(3,2)] obtain q where "q \<in> set (allQuestions t)" "displays t' q"
      by blast
    moreover have "set (allQuestions t) = set (concat (map qs cs))"
      using that(1) by (rule mset_eq_setD)
    ultimately show ?thesis by blast
  qed
  have first: "\<exists>q\<in>set (concat (map qs cs)). displays t q"
    if "fetchQuestions remote rng cs s = Completed t" "allQuestions t \<noteq> []" for t
  proof -
    have "allQuestions s6 = allQuestions t"
      using that(1) displayNextQuestion_frame(3) [of rng s6] by (simp add: s6(1))
    with that shown [of s6 rng t] s6 show ?thesis by simp
  qed
  show ?thesis
    using pool len first shown by (simp only: pool) blast
qed

lemma urls_differ: "request_url ''Selenium'' \<noteq> request_url ''Cypress''"
  by (simp add: request_url_def encodeURIComponent_def unreserved_def)

lemma run_events_alone:
  "\<exists>n. run_events remote rng (replicate n (Resume 0)) (settle p [] [])
         = (state_of (run remote rng p), [])"
proof (induction remote rng p rule: run.induct)
  case (1 remote rng out)
  have "run_events remote rng (replicate 0 (Resume 0)) (settle (Finished out) [] [])
      = (state_of (run remote rng (Finished out)), [])"
    by (simp add: run_events_def)
  then show ?case by blast
next
  case (2 remote rng s t)
  then obtain n where n: "run_events remote rng (replicate n (Resume 0))
      (settle (resume remote rng t s) [] []) = (state_of (run remote rng (resume remote rng t s)), [])"
    by blast
  have "run_events remote rng (replicate (Suc n) (Resume 0)) (settle (Suspended s t) [] [])
      = (state_of (run remote rng (Suspended s t)), [])"
    using n by (simp add: run_events_def)
  then show ?case by blast
qed




section \<open>The claims\<close>

text \<open>
  C1, as stated, fails: the claim puts no condition on what else runs during the cycle, and
  two cycles that overlap share the pool. Both checkboxes are checked one after the other
  before any response has arrived; every request is answered with a success status and an
  array of one question. When the cycle for the two categories has ended and no call is
  left suspended, the pool holds three questions, not two: the first cycle, resumed after
  the second one emptied the pool, pushed its question into it.
\<close>

theorem overlapping_cycles_counterexample:
  "fetched (\<lambda>url. if url = request_url ''Cypress''
                   then Http 200 (Encodes (JArr [JObj [(''question'', JStr ''QC''), (''answer'', JStr ''AC'')]]))
                   else Http 200 (Encodes (JArr [JObj [(''question'', JStr ''QS''), (''answer'', JStr ''AS'')]])))
      ''Cypress'' = [JObj [(''question'', JStr ''QC''), (''answer'', JStr ''AC'')]]
   \<and> fetched (\<lambda>url. if url = request_url ''Cypress''
                   then Http 200 (Encodes (JArr [JObj [(''question'', JStr ''QC''), (''answer'', JStr ''AC'')]]))
                   else Http 200 (Encodes (JArr [JObj [(''question'', JStr ''QS''), (''answer'', JStr ''AS'')]])))
      ''Selenium'' = [JObj [(''question'', JStr ''QS''), (''answer'', JStr ''AS'')]]
   \<and> snd (run_events
        (\<lambda>url. if url = request_url ''Cypress''
                   then Http 200 (Encodes (JArr [JObj [(''question'', JStr ''QC''), (''answer'', JStr ''AC'')]]))
                   else Http 200 (Encodes (JArr [JObj [(''question'', JStr ''QS''), (''answer'', JStr ''AS'')]])))
        (\<lambda>k. 0)
        [Change 0, Change 1, Resume 0, Resume 0, Resume 0, Resume 0, Resume 0, Resume 0]
        (example_page [(''Cypress'', False), (''Selenium'', False)] Map.empty [], [])) = []
   \<and> checked_values (fst (run_events
        (\<lambda>url. if url = request_url ''Cypress''
                   then Http 200 (Encodes (JArr [JObj [(''question'', JStr ''QC''), (''answer'', JStr ''AC'')]]))
                   else Http 200 (Encodes (JArr [JObj [(''question'', JStr ''QS''), (''answer'', JStr ''AS'')]])))
        (\<lambda>k. 0)
        [Change 0, Change 1, Resume 0, Resume 0, Resume 0, Resume 0, Resume 0, Resume 0]
        (example_page [(''Cypress'', False), (''Selenium'', False)] Map.empty [], [])))
       = [''Cypress'', ''Selenium'']
   \<and> allQuestions (fst (run_events
        (\<lambda>url. if url = request_url ''Cypress''
                   then Http 200 (Encodes (JArr [JObj [(''question'', JStr ''QC''), (''answer'', JStr ''AC'')]]))
                   else Http 200 (Encodes (JArr [JObj [(''question'', JStr ''QS''), (''answer'', JStr ''AS'')]])))
        (\<lambda>k. 0)
        [Change 0, Change 1, Resume 0, Resume 0, Resume 0, Resume 0, Resume 0, Resume 0]
        (example_page [(''Cypress'', False), (''Selenium'', False)] Map.empty [], [])))
       = [JObj [(''question'', JStr ''QC''), (''answer'', JStr ''AC'')],
          JObj [(''question'', JStr ''QS''), (''answer'', JStr ''AS'')],
          JObj [(''question'', JStr ''QC''), (''answer'', JStr ''AC'')]]"
  using urls_differ
  by (simp add: run_events_def change_def fetchQuestion_start_def fetchQuestions_start_def
      checked_values_def example_page_def toggleLoading_def finish_def shuffleArray_def
      swap_at_def js_nth_def js_set_def random_index_def displayNextQuestion_def
      JSON_stringify_def ok_def fetched_def Let_def numeral_2_eq_2)

text \<open>
  C1, amended. Take a call of \<open>fetchQuestions\<close> during which nothing else runs: after the
  call, the page's only events are the arrivals of what that call awaits, until it has
  ended. This is \<open>run\<close>, and it is the function \<open>fetchQuestions\<close> of the other claims.
  When every selected category's request is answered with a success status and the JSON
  text of an array, the pool after such a call holds exactly the elements of those arrays,
  each as often as it was fetched, so its size is the sum of the arrays' sizes; and
  whatever question \<open>displayNextQuestion\<close> shows, at the end of the call or on any later
  call on that pool, is one of the fetched elements.
\<close>

theorem isolated_cycle_pool:
  assumes "unit_interval rng"
    and "\<forall>c\<in>set cs. \<exists>status. ok status
            \<and> remote (request_url c) = Http status (Encodes (JArr (qs c)))"
  shows "(\<exists>n. run_events remote rng (replicate n (Resume 0))
                (settle (fetchQuestions_start rng cs s) [] [])
              = (state_of (run remote rng (fetchQuestions_start rng cs s)), []))
         \<and> run remote rng (fetchQuestions_start rng cs s) = fetchQuestions remote rng cs s
         \<and> mset (allQuestions (state_of (run remote rng (fetchQuestions_start rng cs s))))
           = mset (concat (map qs cs))
         \<and> length (allQuestions (state_of (run remote rng (fetchQuestions_start rng cs s))))
           = sum_list (map (\<lambda>c. length (qs c)) cs)
         \<and> (\<forall>t. run remote rng (fetchQuestions_start rng cs s) = Completed t
                 \<and> allQuestions t \<noteq> []
               \<longrightarrow> (\<exists>q\<in>set (concat (map qs cs)). displays t q))
         \<and> (\<forall>rng' t t'. mset (allQuestions t)
                 = mset (allQuestions (state_of (run remote rng (fetchQuestions_start rng cs s))))
               \<and> allQuestions t \<noteq> [] \<and> displayNextQuestion rng' t = Completed t'
               \<longrightarrow> (\<exists>q\<in>set (concat (map qs cs)). displays t' q))"
proof -
  note alone = run_events_alone [of remote rng "fetchQuestions_start rng cs s"]
  show ?thesis
    unfolding run_alone
    by (rule conjI [OF alone [unfolded run_alone] conjI [OF refl fetchQuestions_pool [OF assms]]])
qed

theorem isolated_cycle_pool_witness:
  "unit_interval (\<lambda>k. 0)
   \<and> ok 200
   \<and> length (allQuestions (state_of (run
         (\<lambda>url. if url = request_url ''Cypress''
                then Http 200 (Encodes (JArr [JObj [(''question'', JStr ''Q1''), (''answer'', JStr ''A1'')],
                                              JObj [(''question'', JStr ''Q2''), (''answer'', JStr ''A2'')]]))
                else Http 200 (Encodes (JArr [JObj [(''question'', JStr ''Q3''), (''answer'', JStr ''A3'')]])))
         (\<lambda>k. 0)
         (fetchQuestions_start (\<lambda>k. 0) [''Cypress'', ''Selenium'']
            (example_page [(''Cypress'', True), (''Selenium'', True)] Map.empty [JNull]))))) = 3
   \<and> mset (allQuestions (state_of (run
         (\<lambda>url. if url = request_url ''Cypress''
                then Http 200 (Encodes (JArr [JObj [(''question'', JStr ''Q1''), (''answer'', JStr ''A1'')],
                                              JObj [(''question'', JStr ''Q2''), (''answer'', JStr ''A2'')]]))
                else Http 200 (Encodes (JArr [JObj [(''question'', JStr ''Q3''), (''answer'', JStr ''A3'')]])))
         (\<lambda>k. 0)
         (fetchQuestions_start (\<lambda>k. 0) [''Cypress'', ''Selenium'']
            (example_page [(''Cypress'', True), (''Selenium'', True)] Map.empty [JNull])))))
       = {#JObj [(''question'', JStr ''Q1''), (''answer'', JStr ''A1'')],
           JObj [(''question'', JStr ''Q2''), (''answer'', JStr ''A2'')],
           JObj [(''question'', JStr ''Q3''), (''answer'', JStr ''A3'')]#}"
proof -
  let ?q1 = "JObj [(''question'', JStr ''Q1''), (''answer'', JStr ''A1'')]"
  let ?q2 = "JObj [(''question'', JStr ''Q2''), (''answer'', JStr ''A2'')]"
  let ?q3 = "JObj [(''question'', JStr ''Q3''), (''answer'', JStr ''A3'')]"
  let ?remote = "\<lambda>url. if url = request_url ''Cypress''
                then Http 200 (Encodes (JArr [?q1, ?q2]))
                else Http 200 (Encodes (JArr [?q3]))"
  let ?qs = "\<lambda>c. if c = ''Cypress'' then [?q1, ?q2] else [?q3]"
  let ?cs = "[''Cypress'', ''Selenium'']"
  let ?s = "example_page [(''Cypress'', True), (''Selenium'', True)] Map.empty [JNull]"
  have u: "unit_interval (\<lambda>k. 0)"
    by (simp add: unit_interval_def)
  have good: "ok 200"
    by (simp add: ok_def)
  have r: "\<forall>c\<in>set ?cs. \<exists>status. ok status
      \<and> ?remote (request_url c) = Http status (Encodes (JArr (?qs c)))"
    using urls_differ good by simp
  have all: "concat (map ?qs ?cs) = [?q1, ?q2, ?q3]"
    by simp
  have n: "sum_list (map (\<lambda>c. length (?qs c)) ?cs) = 3"
    by simp
  note T = isolated_cycle_pool [OF u r, of ?s, THEN conjunct2, THEN conjunct2]
  have 1: "mset (allQuestions (state_of (run ?remote (\<lambda>k. 0) (fetchQuestions_start (\<lambda>k. 0) ?cs ?s))))
      = {#?q1, ?q2, ?q3#}"
    using T [THEN conjunct1] unfolding all by simp
  have 2: "length (allQuestions (state_of (run ?remote (\<lambda>k. 0) (fetchQuestions_start (\<lambda>k. 0) ?cs ?s)))) = 3"
    using T [THEN conjunct2, THEN conjunct1] unfolding n .
  show ?thesis
    by (rule conjI [OF u conjI [OF good conjI [OF 2 1]]])
qed




text \<open>
  C3. If local storage holds no value under the key \<open>selectedCategories\<close>, or holds the
  empty array, then after initialization the value stored under that key is exactly the
  array with the one string Cypress, and that selection is the one applied: a checkbox is
  checked exactly when its value is Cypress.
\<close>

theorem default_selection:
  "localStorage s ''selectedCategories'' = None
   \<or> localStorage s ''selectedCategories'' = Some (Encodes (JArr [])) \<Longrightarrow>
     localStorage (state_of (DOMContentLoaded remote rng s)) ''selectedCategories''
       = Some (Encodes (JArr [JStr ''Cypress'']))
     \<and> checkboxes (state_of (DOMContentLoaded remote rng s))
       = map (\<lambda>(v, c). (v, v = ''Cypress'')) (checkboxes s)"
  by (rule DOMContentLoaded_default)

theorem default_selection_witness:
  "localStorage (example_page [(''Cypress'', False), (''Selenium'', True)] Map.empty [])
       ''selectedCategories'' = None
   \<and> localStorage (state_of (DOMContentLoaded (\<lambda>url. NetworkFailure) (\<lambda>k. 0)
         (example_page [(''Cypress'', False), (''Selenium'', True)] Map.empty [])))
       ''selectedCategories'' = Some (Encodes (JArr [JStr ''Cypress'']))
   \<and> checkboxes (state_of (DOMContentLoaded (\<lambda>url. NetworkFailure) (\<lambda>k. 0)
         (example_page [(''Cypress'', False), (''Selenium'', True)] Map.empty [])))
       = [(''Cypress'', True), (''Selenium'', False)]"
  using default_selection [of "example_page [(''Cypress'', False), (''Selenium'', True)] Map.empty []"
      "\<lambda>url. NetworkFailure" "\<lambda>k. 0"]
  by (simp add: example_page_def)

text \<open>
  C4. Whenever \<open>fetchQuestion\<close> is called with no checkbox checked, it returns with the
  question text set to the message asking to select a category and with the answer text,
  the reveal button, the next-question button and the loading spinner hidden, and the list
  of requests sent is what it was before the call.
\<close>

theorem empty_selection_guard:
  "checked_values s = [] \<Longrightarrow>
     fetchQuestion remote rng s =
       Completed (s\<lparr>questionText := JStr ''Please select at least one category.'',
                    answerText_hidden := True,
                    showAnswerBtn_hidden := True, nextQuestionBtn_hidden := True,
                    loadingSpinner_hidden := True\<rparr>)
     \<and> requests (state_of (fetchQuestion remote rng s)) = requests s"
  by (simp add: fetchQuestion_def select_message_def)

theorem empty_selection_guard_witness:
  "checked_values (example_page [(''Cypress'', False)] Map.empty [JNull]) = []
   \<and> questionText (state_of (fetchQuestion (\<lambda>url. NetworkFailure) (\<lambda>k. 0)
         (example_page [(''Cypress'', False)] Map.empty [JNull])))
       = JStr ''Please select at least one category.''
   \<and> loadingSpinner_hidden (state_of (fetchQuestion (\<lambda>url. NetworkFailure) (\<lambda>k. 0)
         (example_page [(''Cypress'', False)] Map.empty [JNull])))
   \<and> requests (state_of (fetchQuestion (\<lambda>url. NetworkFailure) (\<lambda>k. 0)
         (example_page [(''Cypress'', False)] Map.empty [JNull]))) = []"
  using empty_selection_guard [of "example_page [(''Cypress'', False)] Map.empty [JNull]"
      "\<lambda>url. NetworkFailure" "\<lambda>k. 0"]
  by (simp add: example_page_def checked_values_def)



text \<open>
  C6. Whenever \<open>displayNextQuestion\<close> is called with an empty pool, it returns with the
  question text set to the fixed message about being logged into only one account, and
  with the answer text, the reveal button and the next-question button hidden; nothing
  else changes.
\<close>

theorem empty_pool_guidance:
  "allQuestions s = [] \<Longrightarrow>
     displayNextQuestion rng s =
       Completed (s\<lparr>questionText := JStr login_message, answerText_hidden := True,
                    showAnswerBtn_hidden := True, nextQuestionBtn_hidden := True\<rparr>)"
  by (simp add: displayNextQuestion_def)

theorem empty_pool_guidance_witness:
  "allQuestions (example_page [] Map.empty []) = []
   \<and> questionText (state_of (displayNextQuestion (\<lambda>k. 0) (example_page [] Map.empty [])))
       = JStr login_message
   \<and> answerText_hidden (state_of (displayNextQuestion (\<lambda>k. 0) (example_page [] Map.empty [])))
   \<and> showAnswerBtn_hidden (state_of (displayNextQuestion (\<lambda>k. 0) (example_page [] Map.empty [])))
   \<and> nextQuestionBtn_hidden (state_of (displayNextQuestion (\<lambda>k. 0) (example_page [] Map.empty [])))"
  using empty_pool_guidance [of "example_page [] Map.empty []" "\<lambda>k. 0"]
  by (simp add: example_page_def)

text \<open>
  C7. Neither \<open>displayNextQuestion\<close> nor the click on the next-question button changes the
  pool, and the click sends no request and leaves the answer text hidden. For every position
  of the pool there is a value of \<open>Math.random\<close> with which two clicks in a row both pick
  the entry at that position from the unchanged pool; when that entry is not null, both
  clicks return showing its question and its answer.
\<close>

theorem pool_kept_question_may_repeat:
  "allQuestions (state_of (displayNextQuestion rng s)) = allQuestions s
   \<and> allQuestions (state_of (nextQuestionBtn_click rng s)) = allQuestions s
   \<and> requests (state_of (nextQuestionBtn_click rng s)) = requests s
   \<and> answerText_hidden (state_of (nextQuestionBtn_click rng s))
   \<and> (\<forall>i<length (allQuestions s). \<exists>u. 0 \<le> u \<and> u < 1
         \<and> (\<forall>a b. get_prop (allQuestions s ! i) ''question'' = Inr a
                  \<and> get_prop (allQuestions s ! i) ''answer'' = Inr b
               \<longrightarrow> (\<exists>t1 t2. nextQuestionBtn_click (\<lambda>k. u) s = Completed t1
                      \<and> nextQuestionBtn_click (\<lambda>k. u) t1 = Completed t2
                      \<and> displays t1 (allQuestions s ! i) \<and> displays t2 (allQuestions s ! i)
                      \<and> allQuestions t1 = allQuestions s \<and> allQuestions t2 = allQuestions s
                      \<and> requests t2 = requests s)))"
proof -
  have hidden: "answerText_hidden (state_of (nextQuestionBtn_click rng s))"
    by (simp add: nextQuestionBtn_click_def displayNextQuestion_def Let_def split: sum.splits)
  have rep: "\<exists>u. 0 \<le> u \<and> u < 1
         \<and> (\<forall>a b. get_prop (allQuestions s ! i) ''question'' = Inr a
                  \<and> get_prop (allQuestions s ! i) ''answer'' = Inr b
               \<longrightarrow> (\<exists>t1 t2. nextQuestionBtn_click (\<lambda>k. u) s = Completed t1
                      \<and> nextQuestionBtn_click (\<lambda>k. u) t1 = Completed t2
                      \<and> displays t1 (allQuestions s ! i) \<and> displays t2 (allQuestions s ! i)
                      \<and> allQuestions t1 = allQuestions s \<and> allQuestions t2 = allQuestions s
                      \<and> requests t2 = requests s))"
    if i: "i < length (allQuestions s)" for i
  proof -
    let ?u = "of_nat i / of_nat (length (allQuestions s)) :: rat"
    have shown: "\<exists>t1 t2. nextQuestionBtn_click (\<lambda>k. ?u) s = Completed t1
                      \<and> nextQuestionBtn_click (\<lambda>k. ?u) t1 = Completed t2
                      \<and> displays t1 (allQuestions s ! i) \<and> displays t2 (allQuestions s ! i)
                      \<and> allQuestions t1 = allQuestions s \<and> allQuestions t2 = allQuestions s
                      \<and> requests t2 = requests s"
      if q: "get_prop (allQuestions s ! i) ''question'' = Inr a"
        "get_prop (allQuestions s ! i) ''answer'' = Inr b" for a b
    proof -
      define t1 where "t1 = s\<lparr>answerText_hidden := True, random_calls := random_calls s + 1,
          questionText := a, answerText := b, answerText_hidden := True,
          showAnswerBtn_hidden := False, nextQuestionBtn_hidden := False\<rparr>"
      define t2 where "t2 = t1\<lparr>answerText_hidden := True, random_calls := random_calls t1 + 1,
          questionText := a, answerText := b, answerText_hidden := True,
          showAnswerBtn_hidden := False, nextQuestionBtn_hidden := False\<rparr>"
      have 1: "nextQuestionBtn_click (\<lambda>k. ?u) s = Completed t1"
        unfolding nextQuestionBtn_click_def t1_def
        using i q by (subst displayNextQuestion_at [of i _ _ a b]) simp_all
      have 2: "nextQuestionBtn_click (\<lambda>k. ?u) t1 = Completed t2"
        unfolding nextQuestionBtn_click_def t2_def
        using i q by (subst displayNextQuestion_at [of i _ _ a b]) (simp_all add: t1_def)
      have "displays t1 (allQuestions s ! i)" "displays t2 (allQuestions s ! i)"
        using q by (simp_all add: displays_def t1_def t2_def)
      moreover have "allQuestions t1 = allQuestions s" "allQuestions t2 = allQuestions s"
        "requests t2 = requests s"
        by (simp_all add: t1_def t2_def)
      ultimately show ?thesis using 1 2 by blast
    qed
    from unit_fraction [OF i] shown show ?thesis by blast
  qed
  show ?thesis
    using hidden rep
    by (simp add: displayNextQuestion_frame nextQuestionBtn_click_def)
qed

theorem pool_kept_question_may_repeat_witness:
  "(0::nat) < length (allQuestions (example_page [] Map.empty
        [JObj [(''question'', JStr ''Q1''), (''answer'', JStr ''A1'')]]))
   \<and> (\<exists>u. 0 \<le> u \<and> u < 1
        \<and> (\<exists>t1 t2. nextQuestionBtn_click (\<lambda>k. u) (example_page [] Map.empty
                [JObj [(''question'', JStr ''Q1''), (''answer'', JStr ''A1'')]]) = Completed t1
            \<and> nextQuestionBtn_click (\<lambda>k. u) t1 = Completed t2
            \<and> questionText t1 = JStr ''Q1'' \<and> questionText t2 = JStr ''Q1''
            \<and> answerText t1 = JStr ''A1'' \<and> answerText t2 = JStr ''A1''))"
proof -
  let ?q = "JObj [(''question'', JStr ''Q1''), (''answer'', JStr ''A1'')]"
  let ?s = "example_page [] Map.empty [?q]"
  have pool: "allQuestions ?s = [?q]"
    by (simp add: example_page_def)
  have props: "get_prop ?q ''question'' = Inr (JStr ''Q1'')" "get_prop ?q ''answer'' = Inr (JStr ''A1'')"
    by simp_all
  from pool_kept_question_may_repeat [of "\<lambda>k. 0" ?s]
  have "\<forall>i<length (allQuestions ?s). \<exists>u. 0 \<le> u \<and> u < 1
         \<and> (\<forall>a b. get_prop (allQuestions ?s ! i) ''question'' = Inr a
                  \<and> get_prop (allQuestions ?s ! i) ''answer'' = Inr b
               \<longrightarrow> (\<exists>t1 t2. nextQuestionBtn_click (\<lambda>k. u) ?s = Completed t1
                      \<and> nextQuestionBtn_click (\<lambda>k. u) t1 = Completed t2
                      \<and> displays t1 (allQuestions ?s ! i) \<and> displays t2 (allQuestions ?s ! i)
                      \<and> allQuestions t1 = allQuestions ?s \<and> allQuestions t2 = allQuestions ?s
                      \<and> requests t2 = requests ?s))"
    by blast
  then obtain u where u: "0 \<le> u" "u < 1"
    and "\<forall>a b. get_prop ?q ''question'' = Inr a \<and> get_prop ?q ''answer'' = Inr b
               \<longrightarrow> (\<exists>t1 t2. nextQuestionBtn_click (\<lambda>k. u) ?s = Completed t1
                      \<and> nextQuestionBtn_click (\<lambda>k. u) t1 = Completed t2
                      \<and> displays t1 ?q \<and> displays t2 ?q
                      \<and> allQuestions t1 = allQuestions ?s \<and> allQuestions t2 = allQuestions ?s
                      \<and> requests t2 = requests ?s)"
    unfolding pool by fastforce
  with props obtain t1 t2 where "nextQuestionBtn_click (\<lambda>k. u) ?s = Completed t1"
    "nextQuestionBtn_click (\<lambda>k. u) t1 = Completed t2" "displays t1 ?q" "displays t2 ?q"
    by blast
  then show ?thesis
    using u pool by (auto simp: displays_def)
qed

text \<open>
  C8. Clicking the reveal button twice gives back the state before the first click, one
  click flips the hidden state of the answer text, and a click changes nothing else: the
  question and answer texts, the pool, storage, the checkboxes, the other three elements,
  the console, the requests and the random stream are as before.
\<close>

theorem toggle_answer_involution:
  "showAnswerBtn_click (showAnswerBtn_click s) = s
   \<and> answerText_hidden (showAnswerBtn_click s) = (\<not> answerText_hidden s)
   \<and> questionText (showAnswerBtn_click s) = questionText s
   \<and> answerText (showAnswerBtn_click s) = answerText s
   \<and> allQuestions (showAnswerBtn_click s) = allQuestions s
   \<and> localStorage (showAnswerBtn_click s) = localStorage s
   \<and> checkboxes (showAnswerBtn_click s) = checkboxes s
   \<and> showAnswerBtn_hidden (showAnswerBtn_click s) = showAnswerBtn_hidden s
   \<and> nextQuestionBtn_hidden (showAnswerBtn_click s) = nextQuestionBtn_hidden s
   \<and> loadingSpinner_hidden (showAnswerBtn_click s) = loadingSpinner_hidden s
   \<and> console (showAnswerBtn_click s) = console s
   \<and> requests (showAnswerBtn_click s) = requests s
   \<and> random_calls (showAnswerBtn_click s) = random_calls s"
  by (simp add: showAnswerBtn_click_def)

text \<open>
  C9. Exceptions that leave a handler uncaught. Initialization throws a SyntaxError when the
  stored text is not JSON, and a TypeError when it is JSON for the number 5 or for an object,
  since on those \<open>includes\<close> is not a function; \<open>fetchQuestions\<close> throws a TypeError from
  \<open>displayNextQuestion\<close>, outside its \<open>try\<close>, when a successful response is the array
  holding null.
\<close>

theorem uncaught_exceptions:
  "thrown (DOMContentLoaded remote rng
      (example_page [(''Cypress'', False)] [''selectedCategories'' \<mapsto> Unparsable] []))
     = Some SyntaxError
   \<and> thrown (DOMContentLoaded remote rng
      (example_page [(''Cypress'', False)] [''selectedCategories'' \<mapsto> Encodes (JNum 5)] []))
     = Some TypeError
   \<and> thrown (DOMContentLoaded remote rng
      (example_page [(''Cypress'', False)]
         [''selectedCategories'' \<mapsto> Encodes (JObj [(''Cypress'', JBool True)])] []))
     = Some TypeError
   \<and> thrown (fetchQuestions (\<lambda>url. Http 200 (Encodes (JArr [JNull]))) (\<lambda>k. 0) [''Cypress'']
      (example_page [(''Cypress'', True)] Map.empty []))
     = Some TypeError"
  by (simp add: DOMContentLoaded_def example_page_def fetchQuestions_def toggleLoading_def
      fetch_category_def ok_def shuffleArray_def displayNextQuestion_def random_index_def
      js_nth_def Let_def)

theorem uncaught_exceptions_witness:
  "thrown (DOMContentLoaded (\<lambda>url. NetworkFailure) (\<lambda>k. 0)
      (example_page [(''Cypress'', False)] [''selectedCategories'' \<mapsto> Unparsable] []))
     = Some SyntaxError
   \<and> thrown (DOMContentLoaded (\<lambda>url. NetworkFailure) (\<lambda>k. 0)
      (example_page [(''Cypress'', False)] [''selectedCategories'' \<mapsto> Encodes (JNum 5)] []))
     = Some TypeError"
  using uncaught_exceptions [of "\<lambda>url. NetworkFailure" "\<lambda>k. 0"]
  by simp

text \<open>
  C10. With every checkbox unchecked, \<open>saveCategorySelections\<close> stores the empty array
  under \<open>selectedCategories\<close>; an initialization that then starts from that storage
  replaces it by the array with the one string Cypress and checks exactly the checkboxes
  whose value is Cypress.
\<close>

theorem deselect_all_not_kept:
  assumes "checked_values s = []"
  shows "localStorage (state_of (saveCategorySelections remote rng s)) ''selectedCategories''
           = Some (Encodes (JArr []))
         \<and> (localStorage t = localStorage (state_of (saveCategorySelections remote rng s))
             \<longrightarrow> localStorage (state_of (DOMContentLoaded remote' rng' t)) ''selectedCategories''
                   = Some (Encodes (JArr [JStr ''Cypress'']))
                 \<and> checkboxes (state_of (DOMContentLoaded remote' rng' t))
                   = map (\<lambda>(v, c). (v, v = ''Cypress'')) (checkboxes t))"
proof -
  have saved: "localStorage (state_of (saveCategorySelections remote rng s)) ''selectedCategories''
      = Some (Encodes (JArr []))"
    using assms by (simp add: saveCategorySelections_def Let_def fetchQuestion_frame JSON_stringify_def)
  show ?thesis
    using saved DOMContentLoaded_default [of t remote' rng'] by simp
qed

theorem deselect_all_not_kept_witness:
  "checked_values (example_page [(''Cypress'', False), (''Selenium'', False)] Map.empty []) = []
   \<and> localStorage (state_of (saveCategorySelections (\<lambda>url. NetworkFailure) (\<lambda>k. 0)
        (example_page [(''Cypress'', False), (''Selenium'', False)] Map.empty []))) ''selectedCategories''
       = Some (Encodes (JArr []))
   \<and> checkboxes (state_of (DOMContentLoaded (\<lambda>url. NetworkFailure) (\<lambda>k. 0)
        (example_page [(''Cypress'', False), (''Selenium'', False)]
           [''selectedCategories'' \<mapsto> Encodes (JArr [])] [])))
       = [(''Cypress'', True), (''Selenium'', False)]"
  using deselect_all_not_kept [where s = "example_page [(''Cypress'', False), (''Selenium'', False)] Map.empty []"
      and t = "example_page [(''Cypress'', False), (''Selenium'', False)] [''selectedCategories'' \<mapsto> Encodes (JArr [])] []"
      and remote = "\<lambda>url. NetworkFailure" and rng = "\<lambda>k. 0"
      and remote' = "\<lambda>url. NetworkFailure" and rng' = "\<lambda>k. 0"]
  by (simp add: example_page_def checked_values_def saveCategorySelections_def fetchQuestion_def
      JSON_stringify_def)

end
